theory Spec2Isabelle
  imports Complex_Main
begin

section \<open>Python values\<close>

text \<open>
  The plugin works on what \<^verbatim>\<open>json.loads\<close> returns: None, booleans, integers, floats,
  strings, lists and dictionaries with string keys. A dictionary is the list of its
  items; \<^verbatim>\<open>json.loads\<close> keeps one item per key. A string is the sequence of its
  characters, one \<open>char\<close> for each code point; the type holds the code points below
  256. A finite float is the rational it denotes.
\<close>

datatype json =
    JNull
  | JBool bool
  | JInt int
  | JFloat rat
  | JStr string
  | JList "json list"
  | JObj "(string \<times> json) list"

text \<open>The exceptions that the plugin's code can meet.\<close>

datatype py_error = KeyError | TypeError | IndexError | AttributeError | AnsibleError string

text \<open>Python's truth value of an object, as \<^verbatim>\<open>if x:\<close> and \<^verbatim>\<open>if not x:\<close> test it.\<close>

fun truthy :: "json \<Rightarrow> bool" where
  "truthy JNull = False"
| "truthy (JBool b) = b"
| "truthy (JInt i) = (i \<noteq> 0)"
| "truthy (JFloat r) = (r \<noteq> 0)"
| "truthy (JStr s) = (s \<noteq> [])"
| "truthy (JList xs) = (xs \<noteq> [])"
| "truthy (JObj kvs) = (kvs \<noteq> [])"

text \<open>
  Subscription \<^verbatim>\<open>v[k]\<close> with a string key or an integer index. A dictionary raises
  KeyError for a key it does not hold (an integer is never a key of a parsed JSON
  object); a list or a string raises TypeError for a string key and IndexError for an
  index out of range, negative indices counting from the end; None, booleans and
  numbers are not subscriptable.
\<close>

datatype subscript = Key string | Idx int

definition seq_index :: "'a list \<Rightarrow> int \<Rightarrow> py_error + 'a" where
  "seq_index xs i =
     (if 0 \<le> i \<and> i < int (length xs) then Inr (xs ! nat i)
      else if i < 0 \<and> - i \<le> int (length xs) then Inr (xs ! nat (int (length xs) + i))
      else Inl IndexError)"

fun getitem :: "json \<Rightarrow> subscript \<Rightarrow> py_error + json" where
  "getitem (JObj kvs) (Key k) = (case map_of kvs k of None \<Rightarrow> Inl KeyError | Some v \<Rightarrow> Inr v)"
| "getitem (JObj kvs) (Idx i) = Inl KeyError"
| "getitem (JList xs) (Idx i) = seq_index xs i"
| "getitem (JList xs) (Key k) = Inl TypeError"
| "getitem (JStr s) (Idx i) = (case seq_index s i of Inl e \<Rightarrow> Inl e | Inr c \<Rightarrow> Inr (JStr [c]))"
| "getitem (JStr s) (Key k) = Inl TypeError"
| "getitem JNull k = Inl TypeError"
| "getitem (JBool b) k = Inl TypeError"
| "getitem (JInt i) k = Inl TypeError"
| "getitem (JFloat r) k = Inl TypeError"

text \<open>A chain of subscriptions \<^verbatim>\<open>v[k1][k2]...\<close>, left to right, stopping at the first
  exception.\<close>

fun getpath :: "json \<Rightarrow> subscript list \<Rightarrow> py_error + json" where
  "getpath v [] = Inr v"
| "getpath v (k # ks) = (case getitem v k of Inl e \<Rightarrow> Inl e | Inr w \<Rightarrow> getpath w ks)"

text \<open>
  The string methods used by the plugin. \<^verbatim>\<open>x.replace(old, new)\<close> is called with
  one-character literals only, and replaces every occurrence; on anything but a string
  the attribute lookup raises AttributeError.
\<close>

definition str_replace :: "char \<Rightarrow> char \<Rightarrow> string \<Rightarrow> string" where
  "str_replace old new s = map (\<lambda>c. if c = old then new else c) s"

fun py_replace :: "json \<Rightarrow> char \<Rightarrow> char \<Rightarrow> py_error + json" where
  "py_replace (JStr s) old new = Inr (JStr (str_replace old new s))"
| "py_replace JNull old new = Inl AttributeError"
| "py_replace (JBool b) old new = Inl AttributeError"
| "py_replace (JInt i) old new = Inl AttributeError"
| "py_replace (JFloat r) old new = Inl AttributeError"
| "py_replace (JList xs) old new = Inl AttributeError"
| "py_replace (JObj kvs) old new = Inl AttributeError"

text \<open>
  \<^verbatim>\<open>x.lower()\<close> follows the case mappings of the Unicode character database. On a
  string of ASCII characters these map the letters A to Z to a to z, one by one, and
  leave every other character as it is. On any other string the result comes from
  tables that are not part of the repository, may depend on the neighbouring
  characters and may differ in length from the string: there the mapping is the
  parameter \<open>unicode_lower\<close> of the model, a function from strings to strings, and
  every function of \<^verbatim>\<open>udf.py\<close> that reaches \<^verbatim>\<open>lower\<close> carries it.
\<close>

definition is_ascii :: "string \<Rightarrow> bool" where
  "is_ascii s = list_all (\<lambda>c. of_char c < (128::nat)) s"

definition ascii_lower :: "char \<Rightarrow> char" where
  "ascii_lower c =
     (case map_of (zip ''ABCDEFGHIJKLMNOPQRSTUVWXYZ'' ''abcdefghijklmnopqrstuvwxyz'') c of
        None \<Rightarrow> c
      | Some l \<Rightarrow> l)"

definition str_lower :: "(string \<Rightarrow> string) \<Rightarrow> string \<Rightarrow> string" where
  "str_lower unicode_lower s = (if is_ascii s then map ascii_lower s else unicode_lower s)"

fun py_lower :: "(string \<Rightarrow> string) \<Rightarrow> json \<Rightarrow> py_error + json" where
  "py_lower unicode_lower (JStr s) = Inr (JStr (str_lower unicode_lower s))"
| "py_lower unicode_lower JNull = Inl AttributeError"
| "py_lower unicode_lower (JBool b) = Inl AttributeError"
| "py_lower unicode_lower (JInt i) = Inl AttributeError"
| "py_lower unicode_lower (JFloat r) = Inl AttributeError"
| "py_lower unicode_lower (JList xs) = Inl AttributeError"
| "py_lower unicode_lower (JObj kvs) = Inl AttributeError"

text \<open>What a \<^verbatim>\<open>for\<close> loop iterates over: the elements of a list, the keys of a
  dictionary, the characters of a string; anything else is not iterable.\<close>

fun py_iter :: "json \<Rightarrow> py_error + json list" where
  "py_iter (JList xs) = Inr xs"
| "py_iter (JObj kvs) = Inr (map (\<lambda>kv. JStr (fst kv)) kvs)"
| "py_iter (JStr s) = Inr (map (\<lambda>c. JStr [c]) s)"
| "py_iter JNull = Inl TypeError"
| "py_iter (JBool b) = Inl TypeError"
| "py_iter (JInt i) = Inl TypeError"
| "py_iter (JFloat r) = Inl TypeError"

section \<open>Effects\<close>

text \<open>
  The plugin never reads back what it has written: its effects are the calls it makes
  on its two collaborators, \<^verbatim>\<open>self.display\<close> and \<^verbatim>\<open>self.inventory\<close>. An action
  returns its result, or the exception it raised, together with the calls it made, in
  order. The calls made before an exception stay made.
\<close>

datatype effect =
    Warning string
  | Error string
  | Add_host json
  | Set_variable json string json
  | Add_group json
  | Add_host_to_group json json

type_synonym 'a action = "(py_error + 'a) \<times> effect list"

definition return :: "'a \<Rightarrow> 'a action" where
  "return x = (Inr x, [])"

definition raise :: "py_error \<Rightarrow> 'a action" where
  "raise e = (Inl e, [])"

definition emit :: "effect \<Rightarrow> unit action" where
  "emit c = (Inr (), [c])"

definition bind :: "'a action \<Rightarrow> ('a \<Rightarrow> 'b action) \<Rightarrow> 'b action" where
  "bind m f =
     (case m of
        (Inl e, cs) \<Rightarrow> (Inl e, cs)
      | (Inr x, cs) \<Rightarrow> (case f x of (r, ds) \<Rightarrow> (r, cs @ ds)))"

definition lift :: "py_error + 'a \<Rightarrow> 'a action" where
  "lift r = (r, [])"

text \<open>\<^verbatim>\<open>try: return <expr> except (errors): self.display.warning(msg); return None\<close>\<close>

definition try_except :: "py_error + json \<Rightarrow> py_error set \<Rightarrow> effect list \<Rightarrow> json action" where
  "try_except r caught handler =
     (case r of
        Inr v \<Rightarrow> (Inr v, [])
      | Inl e \<Rightarrow> if e \<in> caught then (Inr JNull, handler) else (Inl e, []))"

text \<open>The views of the inventory that a sequence of calls builds.\<close>

fun is_sink_call :: "effect \<Rightarrow> bool" where
  "is_sink_call (Warning m) = False"
| "is_sink_call (Error m) = False"
| "is_sink_call (Add_host h) = True"
| "is_sink_call (Set_variable h k v) = True"
| "is_sink_call (Add_group g) = True"
| "is_sink_call (Add_host_to_group g h) = True"

definition sink_calls :: "effect list \<Rightarrow> effect list" where
  "sink_calls cs = filter is_sink_call cs"

fun hosts_of :: "effect list \<Rightarrow> json list" where
  "hosts_of [] = []"
| "hosts_of (Add_host h # cs) = List.insert h (hosts_of cs)"
| "hosts_of (Add_host_to_group g h # cs) = List.insert h (hosts_of cs)"
| "hosts_of (c # cs) = hosts_of cs"

fun variable_of :: "effect list \<Rightarrow> json \<Rightarrow> string \<Rightarrow> json option" where
  "variable_of [] h k = None"
| "variable_of (Set_variable h' k' v # cs) h k =
     (case variable_of cs h k of
        Some w \<Rightarrow> Some w
      | None \<Rightarrow> if h' = h \<and> k' = k then Some v else None)"
| "variable_of (c # cs) h k = variable_of cs h k"

fun members_of :: "effect list \<Rightarrow> json \<Rightarrow> json list" where
  "members_of [] g = []"
| "members_of (Add_host_to_group g' h # cs) g =
     (if g' = g then List.insert h (members_of cs g) else members_of cs g)"
| "members_of (c # cs) g = members_of cs g"

section \<open>Field extractors\<close>

text \<open>The extractors below have the same text in \<^verbatim>\<open>udf.py\<close> and
  \<^verbatim>\<open>udf_inventory.py\<close>.\<close>

type_synonym extractor = "json \<Rightarrow> json action"

definition extract_private_ipv4 :: extractor where
  "extract_private_ipv4 host_infos =
     try_except (getpath host_infos [Key ''mgmtIp'']) {KeyError, TypeError, IndexError}
       [Warning ''An error happened while extracting private IPv4 address. Information skipped.'']"

definition extract_internal_ssh_port :: extractor where
  "extract_internal_ssh_port host_infos =
     try_except
       (getpath host_infos [Key ''accessMethods'', Key ''ssh'', Idx 0, Key ''internalPort''])
       {KeyError, TypeError, IndexError} []"

definition extract_name :: extractor where
  "extract_name host_infos =
     try_except (getpath host_infos [Key ''name'']) {KeyError, TypeError}
       [Warning ''An error happened while extracting name. Information skipped.'']"

definition extract_id :: extractor where
  "extract_id host_infos =
     try_except (getpath host_infos [Key ''id'']) {KeyError, TypeError}
       [Warning ''An error happened while extracting id. Information skipped.'']"

definition extract_os_name :: extractor where
  "extract_os_name host_infos =
     try_except (getpath host_infos [Key ''osName'']) {KeyError, TypeError}
       [Warning ''An error happened while extracting OS name. Information skipped.'']"

text \<open>Only in \<^verbatim>\<open>udf.py\<close>.\<close>

definition extract_os_name_for_group :: "(string \<Rightarrow> string) \<Rightarrow> extractor" where
  "extract_os_name_for_group unicode_lower host_infos =
     try_except
       (case getpath host_infos [Key ''osName''] of Inl e \<Rightarrow> Inl e | Inr v \<Rightarrow>
        (case py_replace v (CHR '' '') (CHR ''_'') of Inl e \<Rightarrow> Inl e | Inr v1 \<Rightarrow>
        (case py_replace v1 (CHR ''.'') (CHR ''_'') of Inl e \<Rightarrow> Inl e | Inr v2 \<Rightarrow>
         py_lower unicode_lower v2)))
       {KeyError, TypeError}
       [Warning ''An error happened while extracting OS name for group. Information skipped.'']"

text \<open>Only in \<^verbatim>\<open>udf_inventory.py\<close>.\<close>

definition extract_public_ipv4 :: extractor where
  "extract_public_ipv4 host_infos =
     try_except (getpath host_infos [Key ''mgmtIp'']) {KeyError, TypeError, IndexError}
       [Warning ''An error happened while extracting public IPv4 address. Information skipped.'']"

definition extract_hostname :: extractor where
  "extract_hostname host_infos =
     try_except (getpath host_infos [Key ''id'']) {KeyError, TypeError}
       [Warning ''An error happened while extracting hostname. Information skipped.'']"

definition extract_deployment :: extractor where
  "extract_deployment host_infos =
     try_except (getpath host_infos [Key ''deployment'', Key ''id'']) {KeyError, TypeError}
       [Warning ''An error happened while extracting deployment id. Information skipped.'']"

section \<open>Fetching the deployment\<close>

text \<open>
  What the single request can come to: \<^verbatim>\<open>open_url\<close> raises (with the text of the
  exception), \<^verbatim>\<open>to_text\<close> raises UnicodeError, \<^verbatim>\<open>json.loads\<close> raises ValueError,
  or the body parses to a value.
\<close>

datatype fetch_outcome = Open_url_raised string | Not_utf8 | Not_json | Loaded json

definition fetch_information :: "string \<Rightarrow> fetch_outcome \<Rightarrow> json action" where
  "fetch_information url outcome =
     (case outcome of
        Open_url_raised e \<Rightarrow>
          bind (emit (Error (''An error happened while fetching: '' @ url @ '' '' @ e)))
            (\<lambda>_. return JNull)
      | Not_utf8 \<Rightarrow> raise (AnsibleError ''Incorrect encoding of fetched payload from UDF servers'')
      | Not_json \<Rightarrow> raise (AnsibleError ''Incorrect JSON payload'')
      | Loaded v \<Rightarrow> return v)"

text \<open>\<^verbatim>\<open>self.extractors[name](host_infos)\<close>: a missing key raises KeyError.\<close>

definition call_extractor :: "(string \<rightharpoonup> extractor) \<Rightarrow> string \<Rightarrow> extractor" where
  "call_extractor table name host_infos =
     (case table name of None \<Rightarrow> raise KeyError | Some ex \<Rightarrow> ex host_infos)"

text \<open>\<^verbatim>\<open>if self.extract_X(h): self.inventory.set_variable(hostname, key, self.extract_Y(h))\<close>\<close>

definition if_set_variable :: "extractor \<Rightarrow> json \<Rightarrow> string \<Rightarrow> extractor \<Rightarrow> json \<Rightarrow> unit action" where
  "if_set_variable cond hostname key val host_infos =
     bind (cond host_infos) (\<lambda>c.
       if truthy c then bind (val host_infos) (\<lambda>v. emit (Set_variable hostname key v))
       else return ())"

section \<open>The pass of \<^verbatim>\<open>udf.py\<close>\<close>

definition udf_extractors :: "string \<rightharpoonup> extractor" where
  "udf_extractors = map_of [(''private_ipv4'', extract_private_ipv4), (''id'', extract_id)]"

definition udf_group_extractors :: "(string \<Rightarrow> string) \<Rightarrow> (string \<rightharpoonup> extractor)" where
  "udf_group_extractors unicode_lower =
     map_of [(''os'', extract_os_name_for_group unicode_lower)]"

definition udf_fill_host_variables :: "json \<Rightarrow> json \<Rightarrow> unit action" where
  "udf_fill_host_variables hostname host_infos =
     bind (if_set_variable extract_private_ipv4 hostname ''private_ipv4'' extract_private_ipv4 host_infos) (\<lambda>_.
     bind (if_set_variable extract_internal_ssh_port hostname ''internal_ssh_port'' extract_internal_ssh_port host_infos) (\<lambda>_.
     bind (if_set_variable extract_name hostname ''name'' extract_name host_infos) (\<lambda>_.
     bind (if_set_variable extract_id hostname ''id'' extract_name host_infos) (\<lambda>_.
     if_set_variable extract_os_name hostname ''os_name'' extract_os_name host_infos))))"

definition udf_filter_host :: "json \<Rightarrow> string \<Rightarrow> json action" where
  "udf_filter_host host_infos hostname_preference =
     bind (call_extractor udf_extractors hostname_preference host_infos) (\<lambda>c.
       if truthy c then call_extractor udf_extractors hostname_preference host_infos
       else return JNull)"

text \<open>The loop over the group preferences; each \<^verbatim>\<open>return\<close> leaves the loop and the
  function.\<close>

fun udf_group_loop ::
  "(string \<Rightarrow> string) \<Rightarrow> json \<Rightarrow> json \<Rightarrow> string list \<Rightarrow> unit action" where
  "udf_group_loop unicode_lower host_infos hostname [] = return ()"
| "udf_group_loop unicode_lower host_infos hostname (g # gs) =
     (if g \<notin> dom (udf_group_extractors unicode_lower) then
        emit (Warning (''Invalid group name '' @ [CHR 0x27] @ g @ [CHR 0x27] @ '' specified.''))
      else
        bind (call_extractor (udf_group_extractors unicode_lower) g host_infos) (\<lambda>group.
          if \<not> truthy group then return ()
          else
            bind (emit (Add_group group)) (\<lambda>_.
            bind (emit (Add_host_to_group group hostname)) (\<lambda>_.
            udf_group_loop unicode_lower host_infos hostname gs))))"

definition udf_do_server_inventory ::
  "(string \<Rightarrow> string) \<Rightarrow> json \<Rightarrow> string \<Rightarrow> string list \<Rightarrow> unit action" where
  "udf_do_server_inventory unicode_lower host_infos hostname_preference group_preferences =
     bind (udf_filter_host host_infos hostname_preference) (\<lambda>hostname.
       if \<not> truthy hostname then return ()
       else
         bind (emit (Add_host hostname)) (\<lambda>_.
         bind (udf_fill_host_variables hostname host_infos) (\<lambda>_.
         udf_group_loop unicode_lower host_infos hostname group_preferences)))"

fun udf_components_loop ::
  "(string \<Rightarrow> string) \<Rightarrow> json list \<Rightarrow> string \<Rightarrow> string list \<Rightarrow> unit action" where
  "udf_components_loop unicode_lower [] hostname_preference group_preferences = return ()"
| "udf_components_loop unicode_lower (component_info # rest) hostname_preference group_preferences =
     bind (udf_do_server_inventory unicode_lower component_info hostname_preference
             group_preferences) (\<lambda>_.
       udf_components_loop unicode_lower rest hostname_preference group_preferences)"

text \<open>\<^verbatim>\<open>parse\<close>, from the options \<^verbatim>\<open>hostname\<close> and \<^verbatim>\<open>groups\<close> (None when not
  set) and from what the request comes to.\<close>

definition API_ENDPOINT :: string where
  "API_ENDPOINT = ''http://metadata.udf''"

definition udf_parse ::
  "(string \<Rightarrow> string) \<Rightarrow> string \<Rightarrow> string list option \<Rightarrow> fetch_outcome \<Rightarrow> unit action" where
  "udf_parse unicode_lower hostname_option groups_option outcome =
     (let hostname_preference = hostname_option;
          group_preferences = (case groups_option of None \<Rightarrow> [] | Some gs \<Rightarrow> gs);
          servers_url = API_ENDPOINT @ ''/deployment''
      in bind (fetch_information servers_url outcome) (\<lambda>deployment_info.
           if deployment_info = JNull then
             emit (Error ''Error occurred. No inventory could be fetched from UDF API.'')
           else
             bind (lift (getpath deployment_info [Key ''deployment'', Key ''components''])) (\<lambda>components.
             bind (lift (py_iter components)) (\<lambda>items.
             udf_components_loop unicode_lower items hostname_preference group_preferences))))"

section \<open>The pass of \<^verbatim>\<open>udf_inventory.py\<close>\<close>

definition udf_inventory_extractors :: "string \<rightharpoonup> extractor" where
  "udf_inventory_extractors =
     map_of [(''public_ipv4'', extract_public_ipv4),
             (''private_ipv4'', extract_private_ipv4),
             (''hostname'', extract_hostname)]"

definition udf_inventory_group_extractors :: "string \<rightharpoonup> extractor" where
  "udf_inventory_group_extractors = map_of [(''os'', extract_os_name)]"

definition udf_inventory_fill_host_variables :: "json \<Rightarrow> json \<Rightarrow> unit action" where
  "udf_inventory_fill_host_variables hostname host_infos =
     bind (if_set_variable extract_public_ipv4 hostname ''public_ipv4'' extract_public_ipv4 host_infos) (\<lambda>_.
     bind (if_set_variable extract_private_ipv4 hostname ''private_ipv4'' extract_private_ipv4 host_infos) (\<lambda>_.
     bind (if_set_variable extract_internal_ssh_port hostname ''internal_ssh_port'' extract_internal_ssh_port host_infos) (\<lambda>_.
     bind (if_set_variable extract_name hostname ''name'' extract_name host_infos) (\<lambda>_.
     bind (if_set_variable extract_id hostname ''id'' extract_name host_infos) (\<lambda>_.
     if_set_variable extract_os_name hostname ''os_name'' extract_os_name host_infos)))))"

fun udf_inventory_filter_host :: "json \<Rightarrow> string list \<Rightarrow> json action" where
  "udf_inventory_filter_host host_infos [] = return JNull"
| "udf_inventory_filter_host host_infos (pref # prefs) =
     bind (call_extractor udf_inventory_extractors pref host_infos) (\<lambda>c.
       if truthy c then call_extractor udf_inventory_extractors pref host_infos
       else udf_inventory_filter_host host_infos prefs)"

fun udf_inventory_group_loop :: "json \<Rightarrow> json \<Rightarrow> string list \<Rightarrow> unit action" where
  "udf_inventory_group_loop host_infos hostname [] = return ()"
| "udf_inventory_group_loop host_infos hostname (g # gs) =
     bind (call_extractor udf_inventory_group_extractors g host_infos) (\<lambda>group.
       if \<not> truthy group then return ()
       else
         bind (emit (Add_group group)) (\<lambda>_.
         bind (emit (Add_host_to_group group hostname)) (\<lambda>_.
         udf_inventory_group_loop host_infos hostname gs)))"

definition udf_inventory_do_server_inventory :: "json \<Rightarrow> string list \<Rightarrow> string list \<Rightarrow> unit action" where
  "udf_inventory_do_server_inventory host_infos hostname_preferences group_preferences =
     bind (udf_inventory_filter_host host_infos hostname_preferences) (\<lambda>hostname.
       if \<not> truthy hostname then return ()
       else
         bind (emit (Add_host hostname)) (\<lambda>_.
         bind (udf_inventory_fill_host_variables hostname host_infos) (\<lambda>_.
         udf_inventory_group_loop host_infos hostname group_preferences)))"

fun udf_inventory_components_loop :: "json list \<Rightarrow> string list \<Rightarrow> string list \<Rightarrow> unit action" where
  "udf_inventory_components_loop [] hostname_preferences group_preferences = return ()"
| "udf_inventory_components_loop (component_info # rest) hostname_preferences group_preferences =
     bind (udf_inventory_do_server_inventory component_info hostname_preferences group_preferences) (\<lambda>_.
       udf_inventory_components_loop rest hostname_preferences group_preferences)"

definition udf_inventory_parse :: "string list \<Rightarrow> string list option \<Rightarrow> fetch_outcome \<Rightarrow> unit action" where
  "udf_inventory_parse hostnames_option groups_option outcome =
     (let hostname_preferences = hostnames_option;
          group_preferences = (case groups_option of None \<Rightarrow> [] | Some gs \<Rightarrow> gs);
          servers_url = API_ENDPOINT @ ''/deployment''
      in bind (fetch_information servers_url outcome) (\<lambda>deployment_info.
           if deployment_info = JNull then
             emit (Error ''Error occurred. No inventory could be fetched from UDF API.'')
           else
             bind (lift (getpath deployment_info [Key ''deployment'', Key ''components''])) (\<lambda>components.
             bind (lift (py_iter components)) (\<lambda>items.
             udf_inventory_components_loop items hostname_preferences group_preferences))))"

section \<open>Presence, and the records of the scenarios\<close>

text \<open>An action yields a present value when it returns, and what it returns is true in
  Python's sense.\<close>

definition present :: "json action \<Rightarrow> bool" where
  "present m = (case fst m of Inl e \<Rightarrow> False | Inr v \<Rightarrow> truthy v)"

text \<open>The component of Scenario A, and the payload that holds it alone.\<close>

definition web1 :: json where
  "web1 = JObj [(''id'', JStr ''h1''), (''name'', JStr ''web1''),
                (''mgmtIp'', JStr ''10.0.0.5''), (''osName'', JStr ''CentOS 7'')]"

definition payload :: "json list \<Rightarrow> json" where
  "payload components = JObj [(''deployment'', JObj [(''components'', JList components)])]"

text \<open>A component whose \<^verbatim>\<open>osName\<close> is the number 7, one with no \<^verbatim>\<open>name\<close>, and one with
  neither \<^verbatim>\<open>id\<close> nor \<^verbatim>\<open>name\<close>.\<close>

definition numeric_os :: json where
  "numeric_os = JObj [(''mgmtIp'', JStr ''10.0.0.4''), (''osName'', JInt 7)]"

definition nameless :: json where
  "nameless = JObj [(''id'', JStr ''h1''), (''mgmtIp'', JStr ''10.0.0.5'')]"

definition bare :: json where
  "bare = JObj [(''mgmtIp'', JStr ''10.0.0.5''), (''osName'', JStr ''CentOS 7'')]"

text \<open>A component with neither \<^verbatim>\<open>mgmtIp\<close> nor \<^verbatim>\<open>id\<close>, and one with no
  \<^verbatim>\<open>accessMethods\<close> whose \<^verbatim>\<open>osName\<close> is the string of the round-trip property.\<close>

definition anonymous :: json where
  "anonymous = JObj [(''name'', JStr ''web1''), (''osName'', JStr ''CentOS 7'')]"

definition ubuntu :: json where
  "ubuntu = JObj [(''id'', JStr ''h2''), (''name'', JStr ''web2''),
                  (''mgmtIp'', JStr ''10.0.0.6''), (''osName'', JStr ''Ubuntu 20.04 LTS'')]"

text \<open>A component whose \<^verbatim>\<open>ssh\<close> list is empty.\<close>

definition no_ssh :: json where
  "no_ssh = JObj [(''id'', JStr ''h1''), (''name'', JStr ''web1''),
                  (''mgmtIp'', JStr ''10.0.0.5''),
                  (''accessMethods'', JObj [(''ssh'', JList [])])]"

text \<open>The normalised OS name in the words of the specification: the name lowercased,
  its spaces and periods replaced with an underscore.\<close>

definition spec_normalized_os_name :: "(string \<Rightarrow> string) \<Rightarrow> string \<Rightarrow> string" where
  "spec_normalized_os_name unicode_lower s =
     str_replace (CHR ''.'') (CHR ''_'')
       (str_replace (CHR '' '') (CHR ''_'') (str_lower unicode_lower s))"

section \<open>Subscription and the extractors\<close>

lemma getitem_Key_error: "getitem v (Key k) = Inl e \<Longrightarrow> e = KeyError \<or> e = TypeError"
  by (cases v) (auto split: option.splits)

lemma getitem_error: "getitem v k = Inl e \<Longrightarrow> e = KeyError \<or> e = TypeError \<or> e = IndexError"
  by (cases v; cases k) (auto simp: seq_index_def split: option.splits if_splits sum.splits)

lemma getpath_error: "getpath v ks = Inl e \<Longrightarrow> e = KeyError \<or> e = TypeError \<or> e = IndexError"
  by (induction ks arbitrary: v) (auto split: sum.splits dest: getitem_error)

lemma fst_bind: "fst (bind m f) = (case fst m of Inl e \<Rightarrow> Inl e | Inr x \<Rightarrow> fst (f x))"
  by (auto simp: bind_def split: prod.splits sum.splits)

lemma snd_bind: "snd (bind m f) = (case fst m of Inl e \<Rightarrow> snd m | Inr x \<Rightarrow> snd m @ snd (f x))"
  by (auto simp: bind_def split: prod.splits sum.splits)

lemma bind_Inr: "bind (Inr x, cs) f = (fst (f x), cs @ snd (f x))"
  by (simp add: bind_def split: prod.splits)

lemma bind_Inl: "bind (Inl e, cs) f = (Inl e, cs)"
  by (simp add: bind_def)

lemma extract_private_ipv4_eq:
  "extract_private_ipv4 h =
     (case getitem h (Key ''mgmtIp'') of
        Inr v \<Rightarrow> (Inr v, [])
      | Inl e \<Rightarrow> (Inr JNull,
          [Warning ''An error happened while extracting private IPv4 address. Information skipped.'']))"
  by (auto simp: extract_private_ipv4_def try_except_def split: sum.splits dest: getitem_Key_error)

lemma extract_public_ipv4_eq:
  "extract_public_ipv4 h =
     (case getitem h (Key ''mgmtIp'') of
        Inr v \<Rightarrow> (Inr v, [])
      | Inl e \<Rightarrow> (Inr JNull,
          [Warning ''An error happened while extracting public IPv4 address. Information skipped.'']))"
  by (auto simp: extract_public_ipv4_def try_except_def split: sum.splits dest: getitem_Key_error)

lemma extract_name_eq:
  "extract_name h =
     (case getitem h (Key ''name'') of
        Inr v \<Rightarrow> (Inr v, [])
      | Inl e \<Rightarrow> (Inr JNull, [Warning ''An error happened while extracting name. Information skipped.'']))"
  by (auto simp: extract_name_def try_except_def split: sum.splits dest: getitem_Key_error)

lemma extract_id_eq:
  "extract_id h =
     (case getitem h (Key ''id'') of
        Inr v \<Rightarrow> (Inr v, [])
      | Inl e \<Rightarrow> (Inr JNull, [Warning ''An error happened while extracting id. Information skipped.'']))"
  by (auto simp: extract_id_def try_except_def split: sum.splits dest: getitem_Key_error)

lemma extract_hostname_eq:
  "extract_hostname h =
     (case getitem h (Key ''id'') of
        Inr v \<Rightarrow> (Inr v, [])
      | Inl e \<Rightarrow> (Inr JNull, [Warning ''An error happened while extracting hostname. Information skipped.'']))"
  by (auto simp: extract_hostname_def try_except_def split: sum.splits dest: getitem_Key_error)

lemma extract_os_name_eq:
  "extract_os_name h =
     (case getitem h (Key ''osName'') of
        Inr v \<Rightarrow> (Inr v, [])
      | Inl e \<Rightarrow> (Inr JNull, [Warning ''An error happened while extracting OS name. Information skipped.'']))"
  by (auto simp: extract_os_name_def try_except_def split: sum.splits dest: getitem_Key_error)

lemma extract_internal_ssh_port_eq:
  "extract_internal_ssh_port h =
     (case getpath h [Key ''accessMethods'', Key ''ssh'', Idx 0, Key ''internalPort''] of
        Inr v \<Rightarrow> (Inr v, [])
      | Inl e \<Rightarrow> (Inr JNull, []))"
  using getpath_error [of h "[Key ''accessMethods'', Key ''ssh'', Idx 0, Key ''internalPort'']"]
  by (auto simp: extract_internal_ssh_port_def try_except_def simp del: getpath.simps
      split: sum.splits)

lemma extract_deployment_eq:
  "extract_deployment h =
     (case getpath h [Key ''deployment'', Key ''id''] of
        Inr v \<Rightarrow> (Inr v, [])
      | Inl e \<Rightarrow> (Inr JNull, [Warning ''An error happened while extracting deployment id. Information skipped.'']))"
  unfolding extract_deployment_def try_except_def
  by (auto split: sum.splits dest: getitem_Key_error)

lemma extract_os_name_for_group_str:
  "getitem h (Key ''osName'') = Inr (JStr s) \<Longrightarrow>
   extract_os_name_for_group ul h =
     (Inr (JStr (str_lower ul
        (str_replace (CHR ''.'') (CHR ''_'') (str_replace (CHR '' '') (CHR ''_'') s)))), [])"
  by (simp add: extract_os_name_for_group_def try_except_def)

lemma extract_os_name_for_group_error:
  "getitem h (Key ''osName'') = Inl e \<Longrightarrow>
   extract_os_name_for_group ul h =
     (Inr JNull, [Warning ''An error happened while extracting OS name for group. Information skipped.''])"
  by (auto simp: extract_os_name_for_group_def try_except_def dest: getitem_Key_error)

lemma extract_os_name_for_group_non_str:
  "getitem h (Key ''osName'') = Inr v \<Longrightarrow> \<forall>s. v \<noteq> JStr s \<Longrightarrow>
   extract_os_name_for_group ul h = (Inl AttributeError, [])"
  by (cases v) (auto simp: extract_os_name_for_group_def try_except_def)

lemma dom_udf_extractors: "dom udf_extractors = {''private_ipv4'', ''id''}"
  by (auto simp: udf_extractors_def split: if_splits)

lemma dom_udf_group_extractors: "dom (udf_group_extractors ul) = {''os''}"
  by (auto simp: udf_group_extractors_def split: if_splits)

lemma dom_udf_inventory_extractors:
  "dom udf_inventory_extractors = {''public_ipv4'', ''private_ipv4'', ''hostname''}"
  by (auto simp: udf_inventory_extractors_def split: if_splits)

lemma dom_udf_inventory_group_extractors: "dom udf_inventory_group_extractors = {''os''}"
  by (auto simp: udf_inventory_group_extractors_def split: if_splits)

section \<open>The scenarios, evaluated\<close>

lemmas action_defs = bind_def return_def raise_def emit_def lift_def try_except_def
  call_extractor_def if_set_variable_def

lemmas extractor_defs = extract_private_ipv4_def extract_internal_ssh_port_def extract_name_def
  extract_id_def extract_os_name_def extract_os_name_for_group_def extract_public_ipv4_def
  extract_hostname_def extract_deployment_def str_replace_def str_lower_def is_ascii_def
  ascii_lower_def

lemmas udf_defs = udf_parse_def fetch_information_def API_ENDPOINT_def
  udf_do_server_inventory_def udf_filter_host_def udf_extractors_def udf_group_extractors_def
  udf_fill_host_variables_def

lemmas udf_inventory_defs = udf_inventory_parse_def fetch_information_def API_ENDPOINT_def
  udf_inventory_do_server_inventory_def udf_inventory_extractors_def
  udf_inventory_group_extractors_def udf_inventory_fill_host_variables_def

lemmas record_defs = web1_def payload_def numeric_os_def nameless_def bare_def anonymous_def
  ubuntu_def no_ssh_def

lemma udf_scenario_A:
  "udf_parse ul ''private_ipv4'' (Some [''os'']) (Loaded (payload [web1])) =
     (Inr (),
      [Add_host (JStr ''10.0.0.5''),
       Set_variable (JStr ''10.0.0.5'') ''private_ipv4'' (JStr ''10.0.0.5''),
       Set_variable (JStr ''10.0.0.5'') ''name'' (JStr ''web1''),
       Set_variable (JStr ''10.0.0.5'') ''id'' (JStr ''web1''),
       Set_variable (JStr ''10.0.0.5'') ''os_name'' (JStr ''CentOS 7''),
       Add_group (JStr ''centos_7''),
       Add_host_to_group (JStr ''centos_7'') (JStr ''10.0.0.5'')])"
  by (simp add: udf_defs action_defs extractor_defs record_defs)

lemma udf_inventory_scenario_A:
  "udf_inventory_parse [''private_ipv4''] (Some [''os'']) (Loaded (payload [web1])) =
     (Inr (),
      [Add_host (JStr ''10.0.0.5''),
       Set_variable (JStr ''10.0.0.5'') ''public_ipv4'' (JStr ''10.0.0.5''),
       Set_variable (JStr ''10.0.0.5'') ''private_ipv4'' (JStr ''10.0.0.5''),
       Set_variable (JStr ''10.0.0.5'') ''name'' (JStr ''web1''),
       Set_variable (JStr ''10.0.0.5'') ''id'' (JStr ''web1''),
       Set_variable (JStr ''10.0.0.5'') ''os_name'' (JStr ''CentOS 7''),
       Add_group (JStr ''CentOS 7''),
       Add_host_to_group (JStr ''CentOS 7'') (JStr ''10.0.0.5'')])"
  by (simp add: udf_inventory_defs action_defs extractor_defs record_defs)

text \<open>
  Claim C1. Scenario A: the payload with the single component \<open>web1\<close>, hostname
  preference \<^verbatim>\<open>private_ipv4\<close>, groups \<^verbatim>\<open>[os]\<close>. The pass registers exactly one host,
  \<^verbatim>\<open>10.0.0.5\<close>, member of group \<^verbatim>\<open>centos_7\<close>, with the variables \<^verbatim>\<open>name\<close>,
  \<^verbatim>\<open>os_name\<close> and \<^verbatim>\<open>private_ipv4\<close> as the claim gives them. The variable \<^verbatim>\<open>id\<close>
  however holds \<^verbatim>\<open>web1\<close>, the record's name, and not its id \<^verbatim>\<open>h1\<close>:
  \<^verbatim>\<open>_fill_host_variables\<close> tests \<^verbatim>\<open>extract_id\<close> and then stores what \<^verbatim>\<open>extract_name\<close>
  returns. Both files do so.
\<close>

theorem scenario_A_id_holds_name:
  "hosts_of (snd (udf_parse ul ''private_ipv4'' (Some [''os'']) (Loaded (payload [web1]))))
     = [JStr ''10.0.0.5'']
   \<and> map (\<lambda>k. (k, variable_of
          (snd (udf_parse ul ''private_ipv4'' (Some [''os'']) (Loaded (payload [web1]))))
          (JStr ''10.0.0.5'') k))
        [''id'', ''name'', ''os_name'', ''private_ipv4'', ''internal_ssh_port'']
     = [(''id'', Some (JStr ''web1'')), (''name'', Some (JStr ''web1'')),
        (''os_name'', Some (JStr ''CentOS 7'')), (''private_ipv4'', Some (JStr ''10.0.0.5'')),
        (''internal_ssh_port'', None)]
   \<and> members_of (snd (udf_parse ul ''private_ipv4'' (Some [''os'']) (Loaded (payload [web1]))))
        (JStr ''centos_7'') = [JStr ''10.0.0.5'']
   \<and> extract_id web1 = (Inr (JStr ''h1''), [])
   \<and> variable_of
        (snd (udf_inventory_parse [''private_ipv4''] (Some [''os'']) (Loaded (payload [web1]))))
        (JStr ''10.0.0.5'') ''id'' = Some (JStr ''web1'')"
  by (simp add: udf_scenario_A udf_inventory_scenario_A)
     (simp add: extract_id_def try_except_def web1_def)

lemma udf_unknown_group:
  "udf_do_server_inventory ul bare ''private_ipv4'' [''bogus'', ''os''] =
     (Inr (),
      [Add_host (JStr ''10.0.0.5''),
       Set_variable (JStr ''10.0.0.5'') ''private_ipv4'' (JStr ''10.0.0.5''),
       Warning ''An error happened while extracting name. Information skipped.'',
       Warning ''An error happened while extracting id. Information skipped.'',
       Set_variable (JStr ''10.0.0.5'') ''os_name'' (JStr ''CentOS 7''),
       Warning (''Invalid group name '' @ [CHR 0x27] @ ''bogus'' @ [CHR 0x27] @ '' specified.'')])"
  by (simp add: udf_defs action_defs extractor_defs record_defs)

lemma udf_known_group:
  "udf_do_server_inventory ul bare ''private_ipv4'' [''os''] =
     (Inr (),
      [Add_host (JStr ''10.0.0.5''),
       Set_variable (JStr ''10.0.0.5'') ''private_ipv4'' (JStr ''10.0.0.5''),
       Warning ''An error happened while extracting name. Information skipped.'',
       Warning ''An error happened while extracting id. Information skipped.'',
       Set_variable (JStr ''10.0.0.5'') ''os_name'' (JStr ''CentOS 7''),
       Add_group (JStr ''centos_7''),
       Add_host_to_group (JStr ''centos_7'') (JStr ''10.0.0.5'')])"
  by (simp add: udf_defs action_defs extractor_defs record_defs)

lemma udf_absent_group:
  "udf_do_server_inventory ul nameless ''private_ipv4'' [''os'', ''bogus''] =
     (Inr (),
      [Add_host (JStr ''10.0.0.5''),
       Set_variable (JStr ''10.0.0.5'') ''private_ipv4'' (JStr ''10.0.0.5''),
       Warning ''An error happened while extracting name. Information skipped.'',
       Warning ''An error happened while extracting name. Information skipped.'',
       Set_variable (JStr ''10.0.0.5'') ''id'' JNull,
       Warning ''An error happened while extracting OS name. Information skipped.'',
       Warning ''An error happened while extracting OS name for group. Information skipped.''])"
  by (simp add: udf_defs action_defs extractor_defs record_defs)

lemma udf_inventory_unknown_group:
  "udf_inventory_do_server_inventory bare [''private_ipv4''] [''bogus'', ''os''] =
     (Inl KeyError,
      [Add_host (JStr ''10.0.0.5''),
       Set_variable (JStr ''10.0.0.5'') ''public_ipv4'' (JStr ''10.0.0.5''),
       Set_variable (JStr ''10.0.0.5'') ''private_ipv4'' (JStr ''10.0.0.5''),
       Warning ''An error happened while extracting name. Information skipped.'',
       Warning ''An error happened while extracting id. Information skipped.'',
       Set_variable (JStr ''10.0.0.5'') ''os_name'' (JStr ''CentOS 7'')])"
  by (simp add: udf_inventory_defs action_defs extractor_defs record_defs)

text \<open>
  Claim C2. The group dimensions are not handled independently. In \<^verbatim>\<open>udf.py\<close> the
  loop over the group preferences returns at an unknown name (after the warning) and
  at an absent label: with the preferences \<^verbatim>\<open>[bogus, os]\<close> the host of \<open>bare\<close> is not
  put into \<^verbatim>\<open>centos_7\<close>, the group it joins under \<^verbatim>\<open>[os]\<close>, and with
  \<^verbatim>\<open>[os, bogus]\<close> on a record without \<^verbatim>\<open>osName\<close> the name \<^verbatim>\<open>bogus\<close> is never
  reported. In \<^verbatim>\<open>udf_inventory.py\<close> an unknown name raises KeyError.
\<close>

theorem group_loop_stops_at_first_failure:
  "members_of (snd (udf_do_server_inventory ul bare ''private_ipv4'' [''os''])) (JStr ''centos_7'')
     = [JStr ''10.0.0.5'']
   \<and> members_of (snd (udf_do_server_inventory ul bare ''private_ipv4'' [''bogus'', ''os'']))
        (JStr ''centos_7'') = []
   \<and> filter (\<lambda>c. c = Add_group (JStr ''centos_7''))
        (snd (udf_do_server_inventory ul bare ''private_ipv4'' [''bogus'', ''os''])) = []
   \<and> filter (\<lambda>c. c = Warning (''Invalid group name '' @ [CHR 0x27] @ ''bogus'' @ [CHR 0x27] @ '' specified.''))
        (snd (udf_do_server_inventory ul nameless ''private_ipv4'' [''os'', ''bogus''])) = []
   \<and> fst (udf_inventory_do_server_inventory bare [''private_ipv4''] [''bogus'', ''os''])
        = Inl KeyError"
  by (simp add: udf_unknown_group udf_known_group udf_absent_group udf_inventory_unknown_group)

text \<open>
  Claim C4. An extractor can raise: on a record whose \<^verbatim>\<open>osName\<close> is the number 7,
  \<^verbatim>\<open>extract_os_name_for_group\<close> of \<^verbatim>\<open>udf.py\<close> raises AttributeError, which its
  \<^verbatim>\<open>except (KeyError, TypeError)\<close> does not catch.
\<close>

theorem os_name_for_group_raises_on_number:
  "extract_os_name_for_group ul numeric_os = (Inl AttributeError, [])
   \<and> getitem numeric_os (Key ''osName'') = Inr (JInt 7)"
  by (simp add: action_defs extractor_defs record_defs)

text \<open>When the request fails, \<^verbatim>\<open>parse\<close> of either file makes no call on the inventory:
  it reports the failure on the display and returns, or raises AnsibleError.\<close>

lemma udf_parse_fetch_failure:
  "udf_parse ul hostname groups (Open_url_raised e) =
     (Inr (),
      [Error (''An error happened while fetching: '' @ API_ENDPOINT @ ''/deployment'' @ '' '' @ e),
       Error ''Error occurred. No inventory could be fetched from UDF API.''])"
  "udf_parse ul hostname groups Not_utf8 =
     (Inl (AnsibleError ''Incorrect encoding of fetched payload from UDF servers''), [])"
  "udf_parse ul hostname groups Not_json = (Inl (AnsibleError ''Incorrect JSON payload''), [])"
  by (simp_all add: udf_parse_def fetch_information_def bind_def emit_def return_def raise_def)

lemma udf_inventory_parse_fetch_failure:
  "udf_inventory_parse hostnames groups (Open_url_raised e) =
     (Inr (),
      [Error (''An error happened while fetching: '' @ API_ENDPOINT @ ''/deployment'' @ '' '' @ e),
       Error ''Error occurred. No inventory could be fetched from UDF API.''])"
  "udf_inventory_parse hostnames groups Not_utf8 =
     (Inl (AnsibleError ''Incorrect encoding of fetched payload from UDF servers''), [])"
  "udf_inventory_parse hostnames groups Not_json =
     (Inl (AnsibleError ''Incorrect JSON payload''), [])"
  by (simp_all add: udf_inventory_parse_def fetch_information_def bind_def emit_def return_def
      raise_def)

lemma fetch_failure_no_hosts:
  assumes "\<forall>v. outcome \<noteq> Loaded v"
  shows "sink_calls (snd (udf_parse ul hostname groups outcome)) = []
         \<and> sink_calls (snd (udf_inventory_parse hostnames groups outcome)) = []"
  using assms
  by (cases outcome)
     (simp_all add: udf_parse_fetch_failure udf_inventory_parse_fetch_failure sink_calls_def)

text \<open>
  Claim C8. A failed fetch leaves the inventory empty, as the lemmas above show, but
  it is not the only fatal condition. A record can abort the pass after a successful
  fetch: with groups
  \<^verbatim>\<open>[os]\<close> and the components \<open>numeric_os\<close> and \<open>web1\<close>, the pass of \<^verbatim>\<open>udf.py\<close> ends
  with AttributeError on the first record, which is already registered with its
  variables, and the second record is never processed.
\<close>

theorem pass_aborts_on_numeric_os_name:
  "udf_parse ul ''private_ipv4'' (Some [''os'']) (Loaded (payload [numeric_os, web1])) =
     (Inl AttributeError,
      [Add_host (JStr ''10.0.0.4''),
       Set_variable (JStr ''10.0.0.4'') ''private_ipv4'' (JStr ''10.0.0.4''),
       Warning ''An error happened while extracting name. Information skipped.'',
       Warning ''An error happened while extracting id. Information skipped.'',
       Set_variable (JStr ''10.0.0.4'') ''os_name'' (JInt 7)])"
  by (simp add: udf_defs action_defs extractor_defs record_defs)

text \<open>
  Claim C10. A falsy extractor result can be attached as a variable: for a record with
  an \<^verbatim>\<open>id\<close> and no \<^verbatim>\<open>name\<close>, \<^verbatim>\<open>extract_name\<close> returns None and
  \<^verbatim>\<open>_fill_host_variables\<close> stores that None as the variable \<^verbatim>\<open>id\<close>.
\<close>

theorem falsy_name_attached_as_id:
  "udf_do_server_inventory ul nameless ''private_ipv4'' [] =
     (Inr (),
      [Add_host (JStr ''10.0.0.5''),
       Set_variable (JStr ''10.0.0.5'') ''private_ipv4'' (JStr ''10.0.0.5''),
       Warning ''An error happened while extracting name. Information skipped.'',
       Warning ''An error happened while extracting name. Information skipped.'',
       Set_variable (JStr ''10.0.0.5'') ''id'' JNull,
       Warning ''An error happened while extracting OS name. Information skipped.''])
   \<and> extract_name nameless =
       (Inr JNull, [Warning ''An error happened while extracting name. Information skipped.''])
   \<and> truthy JNull = False"
  by (simp add: udf_defs action_defs extractor_defs record_defs)

section \<open>The hostname resolver\<close>

lemma call_unknown: "table name = None \<Longrightarrow> call_extractor table name h = (Inl KeyError, [])"
  by (simp add: call_extractor_def raise_def)

lemma call_udf_extractors:
  "call_extractor udf_extractors ''private_ipv4'' h = extract_private_ipv4 h"
  "call_extractor udf_extractors ''id'' h = extract_id h"
  by (simp_all add: call_extractor_def udf_extractors_def)

lemma call_udf_inventory_extractors:
  "call_extractor udf_inventory_extractors ''public_ipv4'' h = extract_public_ipv4 h"
  "call_extractor udf_inventory_extractors ''private_ipv4'' h = extract_private_ipv4 h"
  "call_extractor udf_inventory_extractors ''hostname'' h = extract_hostname h"
  by (simp_all add: call_extractor_def udf_inventory_extractors_def)

lemma call_udf_group_extractors:
  "call_extractor (udf_group_extractors ul) ''os'' h = extract_os_name_for_group ul h"
  by (simp add: call_extractor_def udf_group_extractors_def)

lemma call_udf_inventory_group_extractors:
  "call_extractor udf_inventory_group_extractors ''os'' h = extract_os_name h"
  by (simp add: call_extractor_def udf_inventory_group_extractors_def)

text \<open>A recognised hostname extractor returns; when what it returns is true it has
  made no call, and it never calls the inventory.\<close>

lemma call_udf_known:
  assumes "p \<in> dom udf_extractors"
  shows "\<exists>v cs. call_extractor udf_extractors p h = (Inr v, cs) \<and> (truthy v \<longrightarrow> cs = [])
           \<and> sink_calls cs = []"
  using assms
  by (auto simp: dom_udf_extractors call_udf_extractors extract_private_ipv4_eq extract_id_eq
      sink_calls_def split: sum.splits)

lemma call_udf_inventory_known:
  assumes "p \<in> dom udf_inventory_extractors"
  shows "\<exists>v cs. call_extractor udf_inventory_extractors p h = (Inr v, cs)
           \<and> (truthy v \<longrightarrow> cs = []) \<and> sink_calls cs = []"
  using assms
  by (auto simp: dom_udf_inventory_extractors call_udf_inventory_extractors
      extract_private_ipv4_eq extract_public_ipv4_eq extract_hostname_eq sink_calls_def
      split: sum.splits)

lemma call_udf_no_sink: "sink_calls (snd (call_extractor udf_extractors p h)) = []"
proof (cases "udf_extractors p")
  case None
  then show ?thesis by (simp add: call_unknown sink_calls_def)
next
  case (Some ex)
  then have "p \<in> dom udf_extractors" by auto
  from call_udf_known [OF this, of h] show ?thesis by auto
qed

lemma call_udf_inventory_no_sink:
  "sink_calls (snd (call_extractor udf_inventory_extractors p h)) = []"
proof (cases "udf_inventory_extractors p")
  case None
  then show ?thesis by (simp add: call_unknown sink_calls_def)
next
  case (Some ex)
  then have "p \<in> dom udf_inventory_extractors" by auto
  from call_udf_inventory_known [OF this, of h] show ?thesis by auto
qed

lemma sink_calls_append: "sink_calls (cs @ ds) = sink_calls cs @ sink_calls ds"
  by (simp add: sink_calls_def)

text \<open>\<^verbatim>\<open>_filter_host\<close> of \<^verbatim>\<open>udf.py\<close>, by cases on what the extractor does.\<close>

lemma udf_filter_host_present:
  assumes "call_extractor udf_extractors p h = (Inr v, [])" and "truthy v"
  shows "udf_filter_host h p = (Inr v, [])"
  using assms by (simp add: udf_filter_host_def bind_def)

lemma udf_filter_host_falsy:
  assumes "call_extractor udf_extractors p h = (Inr v, cs)" and "\<not> truthy v"
  shows "udf_filter_host h p = (Inr JNull, cs)"
  using assms by (simp add: udf_filter_host_def bind_def return_def)

lemma udf_filter_host_raises:
  assumes "call_extractor udf_extractors p h = (Inl e, cs)"
  shows "udf_filter_host h p = (Inl e, cs)"
  using assms by (simp add: udf_filter_host_def bind_def)

lemma udf_filter_host_known:
  assumes "p \<in> dom udf_extractors"
  shows "udf_filter_host h p =
           (if present (call_extractor udf_extractors p h)
            then (fst (call_extractor udf_extractors p h), [])
            else (Inr JNull, snd (call_extractor udf_extractors p h)))"
proof -
  from call_udf_known [OF assms, of h] obtain v cs where
    c: "call_extractor udf_extractors p h = (Inr v, cs)" and e: "truthy v \<longrightarrow> cs = []"
    by blast
  show ?thesis
  proof (cases "truthy v")
    case True
    with c e show ?thesis by (simp add: udf_filter_host_present present_def)
  next
    case False
    with c show ?thesis by (simp add: udf_filter_host_falsy present_def)
  qed
qed

text \<open>\<^verbatim>\<open>_filter_host\<close> of \<^verbatim>\<open>udf_inventory.py\<close>, one step of the loop.\<close>

lemma udf_inventory_filter_host_present:
  assumes "call_extractor udf_inventory_extractors p h = (Inr v, [])" and "truthy v"
  shows "udf_inventory_filter_host h (p # ps) = (Inr v, [])"
  using assms by (simp add: bind_def)

lemma udf_inventory_filter_host_falsy:
  assumes "call_extractor udf_inventory_extractors p h = (Inr v, cs)" and "\<not> truthy v"
  shows "udf_inventory_filter_host h (p # ps) =
           (fst (udf_inventory_filter_host h ps), cs @ snd (udf_inventory_filter_host h ps))"
  using assms by (simp add: bind_def split: prod.splits)

lemma udf_inventory_filter_host_raises:
  assumes "call_extractor udf_inventory_extractors p h = (Inl e, cs)"
  shows "udf_inventory_filter_host h (p # ps) = (Inl e, cs)"
  using assms by (simp add: bind_def)

lemma udf_inventory_filter_host_step:
  assumes "p \<in> dom udf_inventory_extractors"
  shows "udf_inventory_filter_host h (p # ps) =
           (if present (call_extractor udf_inventory_extractors p h)
            then (fst (call_extractor udf_inventory_extractors p h), [])
            else (fst (udf_inventory_filter_host h ps),
                  snd (call_extractor udf_inventory_extractors p h)
                    @ snd (udf_inventory_filter_host h ps)))"
proof -
  from call_udf_inventory_known [OF assms, of h] obtain v cs where
    c: "call_extractor udf_inventory_extractors p h = (Inr v, cs)"
    and e: "truthy v \<longrightarrow> cs = []"
    by blast
  show ?thesis
  proof (cases "truthy v")
    case True
    with c e show ?thesis
      by (simp add: udf_inventory_filter_host_present present_def
          del: udf_inventory_filter_host.simps)
  next
    case False
    with c show ?thesis
      by (simp add: udf_inventory_filter_host_falsy present_def
          del: udf_inventory_filter_host.simps)
  qed
qed

lemma present_not_null: "present m \<Longrightarrow> fst m \<noteq> Inr JNull"
  by (auto simp: present_def)

lemma udf_inventory_filter_host_find:
  assumes "set prefs \<subseteq> dom udf_inventory_extractors"
  shows "fst (udf_inventory_filter_host h prefs) =
           (case find (\<lambda>p. present (call_extractor udf_inventory_extractors p h)) prefs of
              None \<Rightarrow> Inr JNull
            | Some p \<Rightarrow> fst (call_extractor udf_inventory_extractors p h))"
  using assms
proof (induction prefs)
  case Nil
  show ?case by (simp add: return_def)
next
  case (Cons p ps)
  then have "p \<in> dom udf_inventory_extractors" and "set ps \<subseteq> dom udf_inventory_extractors"
    by simp_all
  with Cons.IH show ?case
    by (simp add: udf_inventory_filter_host_step del: udf_inventory_filter_host.simps)
qed

lemma find_None_present:
  "(case find P xs of None \<Rightarrow> Inr JNull | Some p \<Rightarrow> fst (f p)) = Inr JNull
     \<longleftrightarrow> (\<forall>p\<in>set xs. \<not> P p)"
  if "\<And>p. P p \<Longrightarrow> fst (f p) \<noteq> Inr JNull"
  using that by (induction xs) auto

text \<open>
  Claim C5. For a preference list of recognised identifiers, \<^verbatim>\<open>_filter_host\<close> of
  \<^verbatim>\<open>udf_inventory.py\<close> returns what the first extractor of the list with a present
  value returns, whatever the later entries hold, and returns None exactly when no
  extractor of the list yields a present value. \<^verbatim>\<open>_filter_host\<close> of \<^verbatim>\<open>udf.py\<close>,
  which takes one preference, does the same for that one. Present means true in
  Python's sense, which is how both functions test it.
\<close>

theorem filter_host_first_present:
  assumes "set prefs \<subseteq> dom udf_inventory_extractors" and "pref \<in> dom udf_extractors"
  shows "fst (udf_inventory_filter_host h prefs) =
           (case find (\<lambda>p. present (call_extractor udf_inventory_extractors p h)) prefs of
              None \<Rightarrow> Inr JNull
            | Some p \<Rightarrow> fst (call_extractor udf_inventory_extractors p h))
         \<and> (fst (udf_inventory_filter_host h prefs) = Inr JNull
              \<longleftrightarrow> (\<forall>p\<in>set prefs. \<not> present (call_extractor udf_inventory_extractors p h)))
         \<and> fst (udf_filter_host h pref) =
             (if present (call_extractor udf_extractors pref h)
              then fst (call_extractor udf_extractors pref h) else Inr JNull)
         \<and> (fst (udf_filter_host h pref) = Inr JNull
              \<longleftrightarrow> \<not> present (call_extractor udf_extractors pref h))"
proof -
  note f = udf_inventory_filter_host_find [OF assms(1), of h]
  have "fst (udf_inventory_filter_host h prefs) = Inr JNull
          \<longleftrightarrow> (\<forall>p\<in>set prefs. \<not> present (call_extractor udf_inventory_extractors p h))"
    unfolding f by (rule find_None_present) (rule present_not_null)
  moreover have "fst (udf_filter_host h pref) =
             (if present (call_extractor udf_extractors pref h)
              then fst (call_extractor udf_extractors pref h) else Inr JNull)"
    by (simp add: udf_filter_host_known [OF assms(2)])
  moreover from this have "fst (udf_filter_host h pref) = Inr JNull
              \<longleftrightarrow> \<not> present (call_extractor udf_extractors pref h)"
    by (auto dest: present_not_null)
  ultimately show ?thesis using f by blast
qed

text \<open>
  The record \<open>bare\<close> has no \<^verbatim>\<open>id\<close>: \<^verbatim>\<open>hostname\<close> is passed over and
  \<^verbatim>\<open>private_ipv4\<close> wins.
\<close>

theorem filter_host_first_present_witness:
  "set [''hostname'', ''private_ipv4'', ''public_ipv4''] \<subseteq> dom udf_inventory_extractors
   \<and> ''id'' \<in> dom udf_extractors
   \<and> fst (udf_inventory_filter_host bare [''hostname'', ''private_ipv4'', ''public_ipv4''])
       = Inr (JStr ''10.0.0.5'')
   \<and> fst (udf_filter_host bare ''id'') = Inr JNull"
  using filter_host_first_present [of "[''hostname'', ''private_ipv4'', ''public_ipv4'']" "''id''" bare]
  by (simp add: dom_udf_inventory_extractors dom_udf_extractors call_udf_extractors
      call_udf_inventory_extractors extract_hostname_eq extract_private_ipv4_eq
      extract_public_ipv4_eq extract_id_eq present_def bare_def)

section \<open>Records without a hostname\<close>

lemma udf_filter_host_unknown:
  assumes "p \<notin> dom udf_extractors"
  shows "udf_filter_host h p = (Inl KeyError, [])"
proof -
  from assms have "udf_extractors p = None" by auto
  then show ?thesis by (simp add: udf_filter_host_raises call_unknown)
qed

lemma udf_filter_host_absent:
  assumes "\<not> present (call_extractor udf_extractors p h)"
  shows "\<not> present (udf_filter_host h p) \<and> sink_calls (snd (udf_filter_host h p)) = []"
proof (cases "p \<in> dom udf_extractors")
  case True
  with assms show ?thesis
    by (simp add: udf_filter_host_known present_def call_udf_no_sink)
next
  case False
  then show ?thesis by (simp add: udf_filter_host_unknown present_def sink_calls_def)
qed

lemma udf_inventory_filter_host_unknown:
  assumes "p \<notin> dom udf_inventory_extractors"
  shows "udf_inventory_filter_host h (p # ps) = (Inl KeyError, [])"
proof -
  from assms have "udf_inventory_extractors p = None" by auto
  then show ?thesis
    by (simp add: udf_inventory_filter_host_raises call_unknown
        del: udf_inventory_filter_host.simps)
qed

lemma udf_inventory_filter_host_absent:
  assumes "\<forall>p\<in>set prefs. \<not> present (call_extractor udf_inventory_extractors p h)"
  shows "\<not> present (udf_inventory_filter_host h prefs)
         \<and> sink_calls (snd (udf_inventory_filter_host h prefs)) = []"
  using assms
proof (induction prefs)
  case Nil
  show ?case by (simp add: return_def present_def sink_calls_def)
next
  case (Cons p ps)
  show ?case
  proof (cases "p \<in> dom udf_inventory_extractors")
    case True
    with Cons show ?thesis
      by (simp add: udf_inventory_filter_host_step present_def sink_calls_append
          call_udf_inventory_no_sink del: udf_inventory_filter_host.simps)
  next
    case False
    then show ?thesis
      by (simp add: udf_inventory_filter_host_unknown present_def sink_calls_def
          del: udf_inventory_filter_host.simps)
  qed
qed

lemma bind_not_present:
  assumes "\<not> present m"
  shows "snd (bind m (\<lambda>x. if \<not> truthy x then return () else f x)) = snd m"
  using assms by (cases m) (auto simp: bind_def present_def return_def split: sum.splits)

lemma hosts_of_no_sink_calls: "sink_calls cs = [] \<Longrightarrow> hosts_of cs = []"
  by (induction cs rule: hosts_of.induct) (auto simp: sink_calls_def split: if_splits)

text \<open>
  Claim C6. A record for which no entry of the hostname preferences yields a present
  value contributes nothing: \<^verbatim>\<open>do_server_inventory\<close> makes no call on the inventory,
  so that no host is registered, no variable set, no group and no membership added.
  This holds in both files, also when the record is left through a KeyError for an
  unknown identifier.
\<close>

theorem unresolved_record_contributes_nothing:
  assumes "\<forall>p\<in>set prefs. \<not> present (call_extractor udf_inventory_extractors p h)"
    and "\<not> present (call_extractor udf_extractors pref h)"
  shows "sink_calls (snd (udf_inventory_do_server_inventory h prefs groups)) = []
         \<and> hosts_of (snd (udf_inventory_do_server_inventory h prefs groups)) = []
         \<and> sink_calls (snd (udf_do_server_inventory ul h pref groups)) = []
         \<and> hosts_of (snd (udf_do_server_inventory ul h pref groups)) = []"
proof -
  from udf_inventory_filter_host_absent [OF assms(1)]
  have a: "sink_calls (snd (udf_inventory_do_server_inventory h prefs groups)) = []"
    by (simp add: udf_inventory_do_server_inventory_def bind_not_present)
  from udf_filter_host_absent [OF assms(2)]
  have b: "sink_calls (snd (udf_do_server_inventory ul h pref groups)) = []"
    by (simp add: udf_do_server_inventory_def bind_not_present)
  from a b show ?thesis by (simp add: hosts_of_no_sink_calls)
qed

text \<open>Scenario C: the record \<open>anonymous\<close> has neither \<^verbatim>\<open>mgmtIp\<close> nor \<^verbatim>\<open>id\<close>. No
  string is lowercased on the way, and the identity stands for the Unicode mapping.\<close>

theorem unresolved_record_contributes_nothing_witness:
  "list_all (\<lambda>p. \<not> present (call_extractor udf_inventory_extractors p anonymous))
     [''private_ipv4'', ''hostname'']
   \<and> \<not> present (call_extractor udf_extractors ''id'' anonymous)
   \<and> sink_calls (snd (udf_inventory_do_server_inventory anonymous
        [''private_ipv4'', ''hostname''] [''os''])) = []
   \<and> hosts_of (snd (udf_do_server_inventory (\<lambda>s. s) anonymous ''id'' [''os''])) = []"
  using unresolved_record_contributes_nothing
    [of "[''private_ipv4'', ''hostname'']" anonymous "''id''" "[''os'']" "\<lambda>s. s"]
  by (simp add: call_udf_extractors call_udf_inventory_extractors extract_hostname_eq
      extract_private_ipv4_eq extract_id_eq present_def anonymous_def)

section \<open>Unknown hostname identifiers\<close>






section \<open>Filling the variables and assigning the groups\<close>

lemma if_set_variable_eq:
  assumes "cond h = (Inr c, cs)" and "val h = (Inr v, ds)"
  shows "if_set_variable cond hn k val h =
           (Inr (), cs @ (if truthy c then ds @ [Set_variable hn k v] else []))"
  using assms by (simp add: if_set_variable_def bind_def return_def emit_def)

text \<open>The extractors that \<^verbatim>\<open>_fill_host_variables\<close> calls return, and call the display
  only.\<close>

lemma fill_extractor_total:
  assumes "X \<in> {extract_private_ipv4, extract_public_ipv4, extract_internal_ssh_port,
                extract_name, extract_id, extract_os_name}"
  shows "\<exists>v cs. X h = (Inr v, cs) \<and> set cs \<subseteq> range Warning"
  using assms
  by (auto simp: extract_private_ipv4_eq extract_public_ipv4_eq extract_internal_ssh_port_eq
      extract_name_eq extract_id_eq extract_os_name_eq simp del: getpath.simps
      split: sum.splits)

lemma if_set_variable_total:
  assumes "X \<in> {extract_private_ipv4, extract_public_ipv4, extract_internal_ssh_port,
                extract_name, extract_id, extract_os_name}"
    and "Y \<in> {extract_private_ipv4, extract_public_ipv4, extract_internal_ssh_port,
                extract_name, extract_id, extract_os_name}"
  shows "fst (if_set_variable X hn k Y h) = Inr ()
         \<and> set (snd (if_set_variable X hn k Y h)) \<subseteq> range Warning \<union> range (Set_variable hn k)"
proof -
  from fill_extractor_total [OF assms(1), of h] obtain c cs where
    x: "X h = (Inr c, cs)" "set cs \<subseteq> range Warning"
    by blast
  from fill_extractor_total [OF assms(2), of h] obtain v ds where
    y: "Y h = (Inr v, ds)" "set ds \<subseteq> range Warning"
    by blast
  from x(2) y(2) show ?thesis
    by (auto simp: if_set_variable_eq [where cond = X and val = Y and h = h, OF x(1) y(1)])
qed

lemma bind_unit:
  assumes "fst m = Inr ()"
  shows "bind m f = (fst (f ()), snd m @ snd (f ()))"
  using assms by (cases m) (simp add: bind_def split: prod.splits)

lemma udf_fill_host_variables_eq:
  "udf_fill_host_variables hn h =
     (Inr (),
      snd (if_set_variable extract_private_ipv4 hn ''private_ipv4'' extract_private_ipv4 h)
      @ snd (if_set_variable extract_internal_ssh_port hn ''internal_ssh_port''
               extract_internal_ssh_port h)
      @ snd (if_set_variable extract_name hn ''name'' extract_name h)
      @ snd (if_set_variable extract_id hn ''id'' extract_name h)
      @ snd (if_set_variable extract_os_name hn ''os_name'' extract_os_name h))"
  by (simp add: udf_fill_host_variables_def bind_unit if_set_variable_total)

lemma udf_inventory_fill_host_variables_eq:
  "udf_inventory_fill_host_variables hn h =
     (Inr (),
      snd (if_set_variable extract_public_ipv4 hn ''public_ipv4'' extract_public_ipv4 h)
      @ snd (if_set_variable extract_private_ipv4 hn ''private_ipv4'' extract_private_ipv4 h)
      @ snd (if_set_variable extract_internal_ssh_port hn ''internal_ssh_port''
               extract_internal_ssh_port h)
      @ snd (if_set_variable extract_name hn ''name'' extract_name h)
      @ snd (if_set_variable extract_id hn ''id'' extract_name h)
      @ snd (if_set_variable extract_os_name hn ''os_name'' extract_os_name h))"
  by (simp add: udf_inventory_fill_host_variables_def bind_unit if_set_variable_total)

lemma if_set_variable_other_key:
  assumes "X \<in> {extract_private_ipv4, extract_public_ipv4, extract_internal_ssh_port,
                extract_name, extract_id, extract_os_name}"
    and "Y \<in> {extract_private_ipv4, extract_public_ipv4, extract_internal_ssh_port,
                extract_name, extract_id, extract_os_name}"
    and "k' \<noteq> k"
  shows "Set_variable a k' v \<notin> set (snd (if_set_variable X hn k Y h))"
proof -
  from if_set_variable_total [OF assms(1) assms(2)]
  have "set (snd (if_set_variable X hn k Y h)) \<subseteq> range Warning \<union> range (Set_variable hn k)"
    by blast
  with assms(3) show ?thesis by auto
qed

text \<open>What a resolved record adds: the host, then its variables, then its groups.\<close>

lemma udf_do_server_inventory_resolved:
  assumes "fst (udf_filter_host h pref) = Inr hn" and "truthy hn"
  shows "snd (udf_do_server_inventory ul h pref groups) =
           snd (udf_filter_host h pref) @ Add_host hn # snd (udf_fill_host_variables hn h)
             @ snd (udf_group_loop ul h hn groups)"
  using assms
  by (simp add: udf_do_server_inventory_def snd_bind emit_def udf_fill_host_variables_eq)

lemma udf_inventory_do_server_inventory_resolved:
  assumes "fst (udf_inventory_filter_host h prefs) = Inr hn" and "truthy hn"
  shows "snd (udf_inventory_do_server_inventory h prefs groups) =
           snd (udf_inventory_filter_host h prefs)
             @ Add_host hn # snd (udf_inventory_fill_host_variables hn h)
             @ snd (udf_inventory_group_loop h hn groups)"
  using assms
  by (simp add: udf_inventory_do_server_inventory_def snd_bind emit_def
      udf_inventory_fill_host_variables_eq)

lemma extract_os_name_for_group_effects:
  "set (snd (extract_os_name_for_group ul h)) \<subseteq> range Warning"
proof (cases "getitem h (Key ''osName'')")
  case (Inl e)
  then show ?thesis by (simp add: extract_os_name_for_group_error)
next
  case (Inr v)
  then show ?thesis
    by (cases v) (simp_all add: extract_os_name_for_group_str extract_os_name_for_group_non_str)
qed

lemma udf_group_loop_effects:
  "set (snd (udf_group_loop ul h hn gs)) \<subseteq> range Warning \<union> range Add_group
     \<union> range (\<lambda>g. Add_host_to_group g hn)"
proof (induction gs)
  case Nil
  show ?case by (simp add: return_def)
next
  case (Cons g gs)
  show ?case
  proof (cases "g = ''os''")
    case True
    with Cons extract_os_name_for_group_effects [of ul h] show ?thesis
      by (auto simp: dom_udf_group_extractors call_udf_group_extractors snd_bind emit_def
          return_def split: sum.splits)
  next
    case False
    then show ?thesis by (simp add: dom_udf_group_extractors emit_def)
  qed
qed

lemma udf_filter_host_effects: "set (snd (udf_filter_host h p)) \<subseteq> range Warning"
proof (cases "p \<in> dom udf_extractors")
  case True
  then show ?thesis
    by (auto simp: udf_filter_host_known dom_udf_extractors call_udf_extractors
        extract_private_ipv4_eq extract_id_eq split: sum.splits)
next
  case False
  then show ?thesis by (simp add: udf_filter_host_unknown)
qed

lemma members_of_member: "Add_host_to_group g x \<in> set cs \<Longrightarrow> x \<in> set (members_of cs g)"
  by (induction cs g rule: members_of.induct) auto

lemma extract_silent_None:
  "extract_private_ipv4 r = (Inr JNull, []) \<Longrightarrow> getitem r (Key ''mgmtIp'') = Inr JNull"
  "extract_name r = (Inr JNull, []) \<Longrightarrow> getitem r (Key ''name'') = Inr JNull"
  "extract_id r = (Inr JNull, []) \<Longrightarrow> getitem r (Key ''id'') = Inr JNull"
  "extract_os_name r = (Inr JNull, []) \<Longrightarrow> getitem r (Key ''osName'') = Inr JNull"
  by (auto simp: extract_private_ipv4_eq extract_name_eq extract_id_eq extract_os_name_eq
      split: sum.splits)

lemma extract_os_name_for_group_not_silent: "extract_os_name_for_group ul r \<noteq> (Inr JNull, [])"
proof (cases "getitem r (Key ''osName'')")
  case (Inl e)
  then show ?thesis by (simp add: extract_os_name_for_group_error)
next
  case (Inr v)
  then show ?thesis
    by (cases v) (simp_all add: extract_os_name_for_group_str extract_os_name_for_group_non_str)
qed

text \<open>
  What holds in \<^verbatim>\<open>udf.py\<close> when the path \<^verbatim>\<open>accessMethods.ssh[0].internalPort\<close> is
  missing from a record whose hostname resolves. The SSH-port extractor returns None
  and emits nothing; the host is registered; no variable \<^verbatim>\<open>internal_ssh_port\<close> is
  set; the variables \<^verbatim>\<open>private_ipv4\<close>, \<^verbatim>\<open>name\<close> and \<^verbatim>\<open>os_name\<close> are set to the
  fields that are present. Of the variable \<^verbatim>\<open>id\<close> only this holds: some value is
  stored under it when the id is present. No other extractor of the file is silently
  absent: each returns None without a warning only when the field itself holds None,
  and \<^verbatim>\<open>extract_os_name_for_group\<close> never does.
\<close>

lemma missing_ssh_port_other_variables:
  assumes "getpath h [Key ''accessMethods'', Key ''ssh'', Idx 0, Key ''internalPort''] = Inl e"
    and "fst (udf_filter_host h pref) = Inr hn" and "truthy hn"
  shows "extract_internal_ssh_port h = (Inr JNull, [])
    \<and> Add_host hn \<in> set (snd (udf_do_server_inventory ul h pref groups))
    \<and> (\<forall>a v. Set_variable a ''internal_ssh_port'' v
          \<notin> set (snd (udf_do_server_inventory ul h pref groups)))
    \<and> (\<forall>v. getitem h (Key ''mgmtIp'') = Inr v \<and> truthy v \<longrightarrow>
          Set_variable hn ''private_ipv4'' v \<in> set (snd (udf_do_server_inventory ul h pref groups)))
    \<and> (\<forall>v. getitem h (Key ''name'') = Inr v \<and> truthy v \<longrightarrow>
          Set_variable hn ''name'' v \<in> set (snd (udf_do_server_inventory ul h pref groups)))
    \<and> (\<forall>v. getitem h (Key ''osName'') = Inr v \<and> truthy v \<longrightarrow>
          Set_variable hn ''os_name'' v \<in> set (snd (udf_do_server_inventory ul h pref groups)))
    \<and> (\<forall>v. getitem h (Key ''id'') = Inr v \<and> truthy v \<longrightarrow>
          (\<exists>w. Set_variable hn ''id'' w \<in> set (snd (udf_do_server_inventory ul h pref groups))))
    \<and> (\<forall>r. (extract_private_ipv4 r = (Inr JNull, []) \<longrightarrow> getitem r (Key ''mgmtIp'') = Inr JNull)
          \<and> (extract_name r = (Inr JNull, []) \<longrightarrow> getitem r (Key ''name'') = Inr JNull)
          \<and> (extract_id r = (Inr JNull, []) \<longrightarrow> getitem r (Key ''id'') = Inr JNull)
          \<and> (extract_os_name r = (Inr JNull, []) \<longrightarrow> getitem r (Key ''osName'') = Inr JNull)
          \<and> extract_os_name_for_group ul r \<noteq> (Inr JNull, []))"
proof -
  let ?E = "snd (udf_do_server_inventory ul h pref groups)"
  note E = udf_do_server_inventory_resolved [OF assms(2,3), of ul groups]
  have port: "extract_internal_ssh_port h = (Inr JNull, [])"
    using assms(1) by (simp add: extract_internal_ssh_port_eq del: getpath.simps)
  have host: "Add_host hn \<in> set ?E"
    by (simp add: E)
  have ssh_stmt: "snd (if_set_variable extract_internal_ssh_port hn ''internal_ssh_port''
                    extract_internal_ssh_port h) = []"
    by (simp add: if_set_variable_eq
        [where cond = extract_internal_ssh_port and val = extract_internal_ssh_port and h = h,
         OF port port])
  have no_port: "Set_variable a ''internal_ssh_port'' v \<notin> set ?E" for a v
    using udf_filter_host_effects [of h pref] udf_group_loop_effects [of ul h hn groups]
    by (auto simp: E udf_fill_host_variables_eq ssh_stmt if_set_variable_other_key)
  have ip: "Set_variable hn ''private_ipv4'' v \<in> set ?E"
    if "getitem h (Key ''mgmtIp'') = Inr v \<and> truthy v" for v
  proof -
    from that have "extract_private_ipv4 h = (Inr v, [])"
      by (simp add: extract_private_ipv4_eq)
    from if_set_variable_eq [where cond = extract_private_ipv4 and val = extract_private_ipv4 and h = h, OF this this]
      that show ?thesis
      by (simp add: E udf_fill_host_variables_eq)
  qed
  have name: "Set_variable hn ''name'' v \<in> set ?E"
    if "getitem h (Key ''name'') = Inr v \<and> truthy v" for v
  proof -
    from that have "extract_name h = (Inr v, [])"
      by (simp add: extract_name_eq)
    from if_set_variable_eq [where cond = extract_name and val = extract_name and h = h, OF this this]
      that show ?thesis
      by (simp add: E udf_fill_host_variables_eq)
  qed
  have os: "Set_variable hn ''os_name'' v \<in> set ?E"
    if "getitem h (Key ''osName'') = Inr v \<and> truthy v" for v
  proof -
    from that have "extract_os_name h = (Inr v, [])"
      by (simp add: extract_os_name_eq)
    from if_set_variable_eq [where cond = extract_os_name and val = extract_os_name and h = h, OF this this]
      that show ?thesis
      by (simp add: E udf_fill_host_variables_eq)
  qed
  have id: "\<exists>w. Set_variable hn ''id'' w \<in> set ?E"
    if "getitem h (Key ''id'') = Inr v \<and> truthy v" for v
  proof -
    from that have i: "extract_id h = (Inr v, [])"
      by (simp add: extract_id_eq)
    from fill_extractor_total [of extract_name h] obtain w ws where
      n: "extract_name h = (Inr w, ws)" by auto
    from if_set_variable_eq [where cond = extract_id and val = extract_name and h = h, OF i n]
      that have "Set_variable hn ''id'' w \<in> set ?E"
      by (simp add: E udf_fill_host_variables_eq)
    then show ?thesis ..
  qed
  from port host no_port ip name os id extract_silent_None
    extract_os_name_for_group_not_silent
  show ?thesis by blast
qed

lemma udf_no_ssh:
  "udf_do_server_inventory ul no_ssh ''private_ipv4'' [] =
     (Inr (),
      [Add_host (JStr ''10.0.0.5''),
       Set_variable (JStr ''10.0.0.5'') ''private_ipv4'' (JStr ''10.0.0.5''),
       Set_variable (JStr ''10.0.0.5'') ''name'' (JStr ''web1''),
       Set_variable (JStr ''10.0.0.5'') ''id'' (JStr ''web1''),
       Warning ''An error happened while extracting OS name. Information skipped.''])"
  by (simp add: udf_defs action_defs extractor_defs record_defs seq_index_def)

text \<open>
  Claim C9. The record \<open>no_ssh\<close> has an empty \<^verbatim>\<open>ssh\<close> list, so that the path to the
  port ends in IndexError, and its hostname resolves. The SSH-port extractor returns
  None without any call, the host is registered, no variable \<^verbatim>\<open>internal_ssh_port\<close>
  is set, and \<^verbatim>\<open>private_ipv4\<close> and \<^verbatim>\<open>name\<close> hold the record's fields. But the host
  does not get all its other attributes: the record's id is \<^verbatim>\<open>h1\<close>, and the
  variable \<^verbatim>\<open>id\<close> holds \<^verbatim>\<open>web1\<close>, what \<^verbatim>\<open>extract_name\<close> returns.
\<close>

theorem missing_ssh_port_host_gets_name_as_id:
  "getpath no_ssh [Key ''accessMethods'', Key ''ssh'', Idx 0, Key ''internalPort'']
     = Inl IndexError
   \<and> fst (udf_filter_host no_ssh ''private_ipv4'') = Inr (JStr ''10.0.0.5'')
   \<and> extract_internal_ssh_port no_ssh = (Inr JNull, [])
   \<and> hosts_of (snd (udf_do_server_inventory ul no_ssh ''private_ipv4'' []))
       = [JStr ''10.0.0.5'']
   \<and> extract_id no_ssh = (Inr (JStr ''h1''), [])
   \<and> map (\<lambda>k. (k, variable_of (snd (udf_do_server_inventory ul no_ssh ''private_ipv4'' []))
          (JStr ''10.0.0.5'') k))
        [''internal_ssh_port'', ''private_ipv4'', ''name'', ''id'']
     = [(''internal_ssh_port'', None), (''private_ipv4'', Some (JStr ''10.0.0.5'')),
        (''name'', Some (JStr ''web1'')), (''id'', Some (JStr ''web1''))]"
  by (simp add: udf_no_ssh)
     (simp add: udf_filter_host_def call_udf_extractors extract_private_ipv4_eq
       extract_id_eq extract_internal_ssh_port_def try_except_def bind_def seq_index_def
       no_ssh_def)

section \<open>The group label of the \<^verbatim>\<open>os\<close> dimension\<close>

lemma ascii_lower_keeps:
  "ascii_lower c = CHR '' '' \<longleftrightarrow> c = CHR '' ''"
  "ascii_lower c = CHR ''.'' \<longleftrightarrow> c = CHR ''.''"
  "ascii_lower (CHR ''_'') = CHR ''_''"
  by (simp_all add: ascii_lower_def)

lemma ascii_lower_ascii: "of_char c < (128::nat) \<Longrightarrow> of_char (ascii_lower c) < (128::nat)"
  by (auto simp: ascii_lower_def split: option.splits if_splits)

lemma is_ascii_str_replace:
  assumes "is_ascii s" and "of_char new < (128::nat)"
  shows "is_ascii (str_replace old new s)"
  using assms by (induction s) (simp_all add: is_ascii_def str_replace_def)

lemma str_lower_ascii: "is_ascii s \<Longrightarrow> str_lower ul s = map ascii_lower s"
  by (simp add: str_lower_def)

text \<open>On an ASCII name, replacing and then lowercasing, as the code does, gives the
  name of the specification, which lowercases first.\<close>

lemma replace_then_lower:
  assumes "is_ascii s"
  shows "str_lower ul (str_replace (CHR ''.'') (CHR ''_'') (str_replace (CHR '' '') (CHR ''_'') s))
           = spec_normalized_os_name ul s"
proof -
  have "is_ascii (str_replace (CHR ''.'') (CHR ''_'') (str_replace (CHR '' '') (CHR ''_'') s))"
    using assms by (simp add: is_ascii_str_replace)
  then have "str_lower ul
               (str_replace (CHR ''.'') (CHR ''_'') (str_replace (CHR '' '') (CHR ''_'') s))
             = map ascii_lower
                 (str_replace (CHR ''.'') (CHR ''_'') (str_replace (CHR '' '') (CHR ''_'') s))"
    by (rule str_lower_ascii)
  also have "\<dots> = str_replace (CHR ''.'') (CHR ''_'')
                      (str_replace (CHR '' '') (CHR ''_'') (map ascii_lower s))"
    by (simp add: str_replace_def ascii_lower_keeps)
  also have "\<dots> = spec_normalized_os_name ul s"
    using assms by (simp add: spec_normalized_os_name_def str_lower_ascii)
  finally show ?thesis .
qed

lemma udf_os_label:
  assumes "getitem h (Key ''osName'') = Inr (JStr s)"
  shows "call_extractor (udf_group_extractors ul) ''os'' h =
           (Inr (JStr (str_lower ul
              (str_replace (CHR ''.'') (CHR ''_'') (str_replace (CHR '' '') (CHR ''_'') s)))),
            [])"
  using assms by (simp add: call_udf_group_extractors extract_os_name_for_group_str)

text \<open>A name with a character beyond ASCII, here \<^verbatim>\<open>E\<close> with an acute accent (code
  point 201) before \<^verbatim>\<open>cole 1.0\<close>: the label is what the Unicode mapping makes of the
  name after the replacements, and the model fixes nothing more about it.\<close>

lemma udf_os_label_beyond_ascii:
  "call_extractor (udf_group_extractors ul) ''os''
     (JObj [(''osName'', JStr (CHR 0xC9 # ''cole 1.0''))])
   = (Inr (JStr (ul (CHR 0xC9 # ''cole_1_0''))), [])"
  by (simp add: call_udf_group_extractors extract_os_name_for_group_def try_except_def
      str_replace_def str_lower_def is_ascii_def)

lemma udf_inventory_os_label:
  assumes "getitem h (Key ''osName'') = Inr v"
  shows "call_extractor udf_inventory_group_extractors ''os'' h = (Inr v, [])"
  using assms by (simp add: call_udf_inventory_group_extractors extract_os_name_eq)

lemma udf_group_loop_os:
  assumes "call_extractor (udf_group_extractors ul) ''os'' h = (Inr l, [])" and "truthy l"
  shows "snd (udf_group_loop ul h hn (''os'' # gs)) =
           Add_group l # Add_host_to_group l hn # snd (udf_group_loop ul h hn gs)"
  using assms by (simp add: dom_udf_group_extractors bind_def emit_def split: prod.splits)

lemma udf_inventory_group_loop_os:
  assumes "call_extractor udf_inventory_group_extractors ''os'' h = (Inr l, [])" and "truthy l"
  shows "snd (udf_inventory_group_loop h hn (''os'' # gs)) =
           Add_group l # Add_host_to_group l hn # snd (udf_inventory_group_loop h hn gs)"
  using assms by (simp add: bind_def emit_def split: prod.splits)

text \<open>
  Claim C7, as the code has it. Let the \<^verbatim>\<open>osName\<close> of a record be the string \<open>s\<close>,
  and let \<open>label\<close> be \<open>s\<close> with every space and every period replaced by an underscore
  and then lowercased by \<^verbatim>\<open>lower\<close>, whatever the Unicode mapping \<open>ul\<close> is. The
  \<^verbatim>\<open>os\<close> dimension of \<^verbatim>\<open>udf.py\<close> yields \<open>label\<close>; on an ASCII name this is the
  normalised name of the specification. The \<^verbatim>\<open>os\<close> dimension of
  \<^verbatim>\<open>udf_inventory.py\<close> yields \<open>s\<close> itself. When the label is not empty, the hostname
  resolves and \<^verbatim>\<open>os\<close> is the first group preference, the group of that label is
  added and the host is a member of it.
\<close>

theorem os_group_label:
  assumes "getitem h (Key ''osName'') = Inr (JStr s)"
    and "label = str_lower ul
           (str_replace (CHR ''.'') (CHR ''_'') (str_replace (CHR '' '') (CHR ''_'') s))"
  shows "call_extractor (udf_group_extractors ul) ''os'' h = (Inr (JStr label), [])
    \<and> (is_ascii s \<longrightarrow> label = spec_normalized_os_name ul s)
    \<and> call_extractor udf_inventory_group_extractors ''os'' h = (Inr (JStr s), [])
    \<and> (label \<noteq> [] \<and> fst (udf_filter_host h pref) = Inr hn \<and> truthy hn \<longrightarrow>
          Add_group (JStr label) \<in> set (snd (udf_do_server_inventory ul h pref (''os'' # gs)))
          \<and> hn \<in> set (members_of (snd (udf_do_server_inventory ul h pref (''os'' # gs)))
                        (JStr label)))
    \<and> (s \<noteq> [] \<and> fst (udf_inventory_filter_host h prefs) = Inr hn' \<and> truthy hn' \<longrightarrow>
          Add_group (JStr s)
            \<in> set (snd (udf_inventory_do_server_inventory h prefs (''os'' # gs)))
          \<and> hn' \<in> set (members_of (snd (udf_inventory_do_server_inventory h prefs (''os'' # gs)))
                         (JStr s)))"
proof -
  have a: "call_extractor (udf_group_extractors ul) ''os'' h = (Inr (JStr label), [])"
    unfolding assms(2) by (rule udf_os_label [OF assms(1)])
  have a': "label = spec_normalized_os_name ul s" if "is_ascii s"
    unfolding assms(2) by (rule replace_then_lower [OF that])
  note b = udf_inventory_os_label [OF assms(1)]
  have c: "Add_group (JStr label) \<in> set (snd (udf_do_server_inventory ul h pref (''os'' # gs)))
           \<and> hn \<in> set (members_of (snd (udf_do_server_inventory ul h pref (''os'' # gs)))
                        (JStr label))"
    if "label \<noteq> [] \<and> fst (udf_filter_host h pref) = Inr hn \<and> truthy hn"
  proof -
    from that have t: "truthy (JStr label)" by simp
    from that have r: "fst (udf_filter_host h pref) = Inr hn" and th: "truthy hn"
      by simp_all
    have m: "Add_group (JStr label)
               \<in> set (snd (udf_do_server_inventory ul h pref (''os'' # gs)))"
      and n: "Add_host_to_group (JStr label) hn
               \<in> set (snd (udf_do_server_inventory ul h pref (''os'' # gs)))"
      by (simp_all add: udf_do_server_inventory_resolved [OF r th] udf_group_loop_os [OF a t]
          del: udf_group_loop.simps)
    from m members_of_member [OF n] show ?thesis by simp
  qed
  have d: "Add_group (JStr s)
             \<in> set (snd (udf_inventory_do_server_inventory h prefs (''os'' # gs)))
           \<and> hn' \<in> set (members_of (snd (udf_inventory_do_server_inventory h prefs (''os'' # gs)))
                         (JStr s))"
    if "s \<noteq> [] \<and> fst (udf_inventory_filter_host h prefs) = Inr hn' \<and> truthy hn'"
  proof -
    from that have t: "truthy (JStr s)" by simp
    from that have r: "fst (udf_inventory_filter_host h prefs) = Inr hn'" and th: "truthy hn'"
      by simp_all
    have m: "Add_group (JStr s)
               \<in> set (snd (udf_inventory_do_server_inventory h prefs (''os'' # gs)))"
      and n: "Add_host_to_group (JStr s) hn'
               \<in> set (snd (udf_inventory_do_server_inventory h prefs (''os'' # gs)))"
      by (simp_all add: udf_inventory_do_server_inventory_resolved [OF r th]
          udf_inventory_group_loop_os [OF b t] del: udf_inventory_group_loop.simps)
    from m members_of_member [OF n] show ?thesis by simp
  qed
  from a a' b c d show ?thesis by blast
qed

text \<open>The round trip of the specification: \<^verbatim>\<open>Ubuntu 20.04 LTS\<close> gives
  \<^verbatim>\<open>ubuntu_20_04_lts\<close> in \<^verbatim>\<open>udf.py\<close>. The name is ASCII, so that the Unicode mapping
  is never consulted; the identity stands for it.\<close>

theorem os_group_label_witness:
  "getitem ubuntu (Key ''osName'') = Inr (JStr ''Ubuntu 20.04 LTS'')
   \<and> ''ubuntu_20_04_lts'' = str_lower (\<lambda>s. s)
        (str_replace (CHR ''.'') (CHR ''_'')
          (str_replace (CHR '' '') (CHR ''_'') ''Ubuntu 20.04 LTS''))
   \<and> is_ascii ''Ubuntu 20.04 LTS''
   \<and> ''ubuntu_20_04_lts'' = spec_normalized_os_name (\<lambda>s. s) ''Ubuntu 20.04 LTS''
   \<and> call_extractor (udf_group_extractors (\<lambda>s. s)) ''os'' ubuntu
       = (Inr (JStr ''ubuntu_20_04_lts''), [])
   \<and> call_extractor udf_inventory_group_extractors ''os'' ubuntu
       = (Inr (JStr ''Ubuntu 20.04 LTS''), [])
   \<and> JStr ''10.0.0.6''
       \<in> set (members_of
                (snd (udf_do_server_inventory (\<lambda>s. s) ubuntu ''private_ipv4'' [''os'']))
                (JStr ''ubuntu_20_04_lts''))
   \<and> JStr ''10.0.0.6''
       \<in> set (members_of (snd (udf_inventory_do_server_inventory ubuntu [''private_ipv4''] [''os'']))
                (JStr ''Ubuntu 20.04 LTS''))"
proof -
  have o: "getitem ubuntu (Key ''osName'') = Inr (JStr ''Ubuntu 20.04 LTS'')"
    by (simp add: ubuntu_def)
  have l: "''ubuntu_20_04_lts'' = str_lower (\<lambda>s. s)
        (str_replace (CHR ''.'') (CHR ''_'')
          (str_replace (CHR '' '') (CHR ''_'') ''Ubuntu 20.04 LTS''))"
    by (simp add: str_lower_def str_replace_def is_ascii_def ascii_lower_def)
  have i: "is_ascii ''Ubuntu 20.04 LTS''"
    by (simp add: is_ascii_def)
  have f: "fst (udf_filter_host ubuntu ''private_ipv4'') = Inr (JStr ''10.0.0.6'')"
    by (simp add: udf_filter_host_def call_udf_extractors extract_private_ipv4_eq bind_def
        ubuntu_def)
  have g: "fst (udf_inventory_filter_host ubuntu [''private_ipv4'']) = Inr (JStr ''10.0.0.6'')"
    by (simp add: call_udf_inventory_extractors extract_private_ipv4_eq bind_def ubuntu_def)
  have n: "''ubuntu_20_04_lts'' \<noteq> []" "''Ubuntu 20.04 LTS'' \<noteq> []"
    and t: "truthy (JStr ''10.0.0.6'')"
    by simp_all
  from os_group_label [OF o l, of "''private_ipv4''" "JStr ''10.0.0.6''" "[]"
      "[''private_ipv4'']" "JStr ''10.0.0.6''"] o l i f g n t
  show ?thesis by blast
qed

text \<open>
  Claim C7, as stated, fails in \<^verbatim>\<open>udf_inventory.py\<close>, where the \<^verbatim>\<open>os\<close> dimension is
  \<^verbatim>\<open>extract_os_name\<close>: the host of Scenario A is grouped under \<^verbatim>\<open>CentOS 7\<close>, the
  name as it stands, and not under \<^verbatim>\<open>centos_7\<close>.
\<close>

theorem udf_inventory_os_group_is_verbatim:
  "call_extractor udf_inventory_group_extractors ''os'' web1 = (Inr (JStr ''CentOS 7''), [])
   \<and> members_of (snd (udf_inventory_do_server_inventory web1 [''private_ipv4''] [''os'']))
        (JStr ''centos_7'') = []
   \<and> members_of (snd (udf_inventory_do_server_inventory web1 [''private_ipv4''] [''os'']))
        (JStr ''CentOS 7'') = [JStr ''10.0.0.5'']"
  by (simp add: udf_defs udf_inventory_defs action_defs extractor_defs record_defs)

end
